theory Spec2Isabelle
  imports Complex_Main "HOL-Library.Finite_Map" "HOL-Library.Char_ord" "HOL-Library.List_Lexorder"
begin

section \<open>Values\<close>

text \<open>
  The values that travel through \<^verbatim>\<open>main.py\<close>: what \<^verbatim>\<open>request.get_json()\<close> parses
  and what a Firestore document holds. A Python \<^verbatim>\<open>dict\<close> with string keys is a finite
  map, so two dicts are equal whatever the order of their keys, as in Python. \<open>JTime\<close> is
  a timestamp assigned by the store; it never comes from a request. Floats are carried
  as reals (the non-finite ones are not represented); the code only ever tests them for
  truth.
\<close>

datatype json =
    JNull
  | JBool bool
  | JInt int
  | JFloat real
  | JStr string
  | JList "json list"
  | JObj "(string, json) fmap"
  | JTime nat

type_synonym document = "(string, json) fmap"

text \<open>The exceptions the modelled code can meet. Every one of them is an \<^verbatim>\<open>Exception\<close>.\<close>

datatype exn =
    AttributeError
  | KeyError
  | TypeError
  | ValueError
  | BadRequest
  | NotFound
  | StoreError

text \<open>\<^verbatim>\<open>str(e)\<close>; only its use as the text of a 500 body matters.\<close>

fun str_exn :: "exn \<Rightarrow> string" where
  "str_exn AttributeError = ''AttributeError''"
| "str_exn KeyError = ''KeyError''"
| "str_exn TypeError = ''TypeError''"
| "str_exn ValueError = ''ValueError''"
| "str_exn BadRequest = ''BadRequest''"
| "str_exn NotFound = ''NotFound''"
| "str_exn StoreError = ''StoreError''"

subsection \<open>The Python operations used on them\<close>

text \<open>\<^verbatim>\<open>bool(v)\<close>, as in \<^verbatim>\<open>if not node\<close>.\<close>

fun truthy :: "json \<Rightarrow> bool" where
  "truthy JNull = False"
| "truthy (JBool b) = b"
| "truthy (JInt i) = (i \<noteq> 0)"
| "truthy (JFloat r) = (r \<noteq> 0)"
| "truthy (JStr s) = (s \<noteq> [])"
| "truthy (JList xs) = (xs \<noteq> [])"
| "truthy (JObj d) = (fmdom d \<noteq> {||})"
| "truthy (JTime t) = True"

text \<open>\<^verbatim>\<open>d.get(k, default)\<close> on a dict.\<close>

definition dict_get :: "document \<Rightarrow> string \<Rightarrow> json \<Rightarrow> json" where
  "dict_get d k dflt = (case fmlookup d k of None \<Rightarrow> dflt | Some v \<Rightarrow> v)"

text \<open>\<^verbatim>\<open>data.get(k, default)\<close> on a parsed body: only a dict has \<^verbatim>\<open>get\<close>.\<close>

fun py_get :: "json \<Rightarrow> string \<Rightarrow> json \<Rightarrow> exn + json" where
  "py_get (JObj d) k dflt = Inr (dict_get d k dflt)"
| "py_get v k dflt = Inl AttributeError"

text \<open>\<^verbatim>\<open>v[k]\<close> with a string key \<open>k\<close>: a dict looks the key up, nothing else accepts it.\<close>

fun getitem :: "json \<Rightarrow> string \<Rightarrow> exn + json" where
  "getitem (JObj d) k = (case fmlookup d k of None \<Rightarrow> Inl KeyError | Some v \<Rightarrow> Inr v)"
| "getitem v k = Inl TypeError"

text \<open>\<^verbatim>\<open>v[k] = x\<close> with a string key: the value of \<open>v\<close> after the assignment.\<close>

fun setitem :: "json \<Rightarrow> string \<Rightarrow> json \<Rightarrow> exn + json" where
  "setitem (JObj d) k x = Inr (JObj (fmupd k x d))"
| "setitem v k x = Inl TypeError"

text \<open>
  \<^verbatim>\<open>for x in v\<close>: a list yields its elements, a string its characters and a dict its
  keys (Python yields them in insertion order, which a finite map does not record; the
  order chosen here never shows, since the loops below raise on the first string they meet).
\<close>

fun py_iter :: "json \<Rightarrow> exn + json list" where
  "py_iter (JList xs) = Inr xs"
| "py_iter (JStr s) = Inr (map (\<lambda>c. JStr [c]) s)"
| "py_iter (JObj d) = Inr (map JStr (sorted_list_of_fset (fmdom d)))"
| "py_iter v = Inl TypeError"

text \<open>\<^verbatim>\<open>[x for x in xs if cond(x)]\<close> where the condition may raise.\<close>

fun comprehension :: "('a \<Rightarrow> exn + bool) \<Rightarrow> 'a list \<Rightarrow> exn + 'a list" where
  "comprehension cond [] = Inr []"
| "comprehension cond (x # xs) =
     (case cond x of
        Inl e \<Rightarrow> Inl e
      | Inr keep \<Rightarrow>
          (case comprehension cond xs of
             Inl e \<Rightarrow> Inl e
           | Inr rest \<Rightarrow> Inr (if keep then x # rest else rest)))"

section \<open>The document store\<close>

text \<open>
  The Firestore client is an external collaborator. Its model is the collection
  \<^verbatim>\<open>reactflow_data\<close> as a map from document id to document, the server's clock, a log of
  the calls \<^verbatim>\<open>main.py\<close> has issued, and a script of outages: each call to the store takes
  the head of \<open>outages\<close>, and raises when it is \<open>True\<close> (an empty script means the store
  answers). A call that raises leaves the documents as they were. The store keeps what
  it is given as it is, replaces the timestamp sentinel by its clock at the write,
  refuses to update a document that does not exist, and deletes one that does not
  exist without complaint. \<open>auto_id\<close> lists the random ids the client will make up, and
  \<open>drawn\<close> counts those it has made up so far.
\<close>

datatype rpc = SetCall string | GetCall string | DeleteCall string | UpdateCall string

record firestore =
  docs :: "string \<rightharpoonup> document"
  server_time :: nat
  outages :: "bool list"
  calls :: "rpc list"
  auto_id :: "nat \<Rightarrow> string"
  drawn :: nat

text \<open>What a field of a write holds: a plain value or one of the two sentinels used.\<close>

datatype field_value = Plain json | SERVER_TIMESTAMP | ArrayUnion "json list"

text \<open>
  \<^verbatim>\<open>collection(...).document(user_id)\<close> builds a reference and calls nothing. The client
  joins the collection's name and the id with \<^verbatim>\<open>/\<close>, splits the result at every \<^verbatim>\<open>/\<close> and
  raises \<^verbatim>\<open>ValueError\<close> unless the number of elements is even, as a document path needs:
  an id such as \<^verbatim>\<open>a/b\<close> is refused, one without \<^verbatim>\<open>/\<close> is taken. For \<^verbatim>\<open>None\<close> it makes
  up a random id. An id that is neither a string nor \<^verbatim>\<open>None\<close> cannot be joined and
  raises too. The document is kept under its path below the collection, the id itself.
\<close>

definition path_elements :: "string \<Rightarrow> nat" where
  "path_elements path = Suc (count_list path CHR ''/'')"

definition is_document_id :: "string \<Rightarrow> bool" where
  "is_document_id s = even (path_elements (''reactflow_data'' @ ''/'' @ s))"

fun document :: "firestore \<Rightarrow> json \<Rightarrow> (exn + string) \<times> firestore" where
  "document db (JStr s) = (if is_document_id s then Inr s else Inl ValueError, db)"
| "document db JNull =
     (let s = auto_id db (drawn db)
      in (if is_document_id s then Inr s else Inl ValueError, db\<lparr>drawn := Suc (drawn db)\<rparr>))"
| "document db v = (Inl TypeError, db)"

definition issue :: "rpc \<Rightarrow> firestore \<Rightarrow> bool \<times> firestore" where
  "issue c db =
     (case outages db of
        [] \<Rightarrow> (False, db\<lparr>calls := calls db @ [c]\<rparr>)
      | down # later \<Rightarrow> (down, db\<lparr>outages := later, calls := calls db @ [c]\<rparr>))"

text \<open>\<^verbatim>\<open>ArrayUnion\<close>: each element is appended unless the array already holds an equal one.\<close>

fun union_append :: "json list \<Rightarrow> json list \<Rightarrow> json list" where
  "union_append ys [] = ys"
| "union_append ys (x # xs) = union_append (if x \<in> set ys then ys else ys @ [x]) xs"

text \<open>The stored value of a written field, given the field's current value.\<close>

fun resolve :: "nat \<Rightarrow> json option \<Rightarrow> field_value \<Rightarrow> json" where
  "resolve t cur (Plain v) = v"
| "resolve t cur SERVER_TIMESTAMP = JTime t"
| "resolve t (Some (JList ys)) (ArrayUnion xs) = JList (union_append ys xs)"
| "resolve t cur (ArrayUnion xs) = JList (union_append [] xs)"

text \<open>\<^verbatim>\<open>doc_ref.set(data)\<close>: create or replace the whole document.\<close>

definition doc_set :: "firestore \<Rightarrow> string \<Rightarrow> (string, field_value) fmap \<Rightarrow> (exn + unit) \<times> firestore" where
  "doc_set db ref data =
     (let (down, db') = issue (SetCall ref) db in
      if down then (Inl StoreError, db')
      else (Inr (),
            db'\<lparr>docs := (docs db')(ref \<mapsto> fmmap (resolve (server_time db') None) data),
                server_time := Suc (server_time db')\<rparr>))"

text \<open>\<^verbatim>\<open>doc_ref.get()\<close>: a snapshot, \<open>None\<close> when \<^verbatim>\<open>doc.exists\<close> is false.\<close>

definition doc_get :: "firestore \<Rightarrow> string \<Rightarrow> (exn + document option) \<times> firestore" where
  "doc_get db ref =
     (let (down, db') = issue (GetCall ref) db in
      if down then (Inl StoreError, db') else (Inr (docs db' ref), db'))"

text \<open>\<^verbatim>\<open>doc_ref.delete()\<close>: the store does not report a missing target.\<close>

definition doc_delete :: "firestore \<Rightarrow> string \<Rightarrow> (exn + unit) \<times> firestore" where
  "doc_delete db ref =
     (let (down, db') = issue (DeleteCall ref) db in
      if down then (Inl StoreError, db')
      else (Inr (), db'\<lparr>docs := (docs db')(ref := None), server_time := Suc (server_time db')\<rparr>))"

text \<open>\<^verbatim>\<open>doc_ref.update(field_updates)\<close>: sets the given fields of an existing document.\<close>

definition doc_update :: "firestore \<Rightarrow> string \<Rightarrow> (string, field_value) fmap \<Rightarrow> (exn + unit) \<times> firestore" where
  "doc_update db ref field_updates =
     (let (down, db') = issue (UpdateCall ref) db in
      if down then (Inl StoreError, db')
      else
        (case docs db' ref of
           None \<Rightarrow> (Inl NotFound, db')
         | Some d \<Rightarrow>
             (Inr (),
              db'\<lparr>docs := (docs db')(ref \<mapsto>
                     d ++\<^sub>f fmmap_keys (\<lambda>k. resolve (server_time db') (fmlookup d k)) field_updates),
                  server_time := Suc (server_time db')\<rparr>)))"

section \<open>The data access layer: \<^verbatim>\<open>FlowDataManager\<close>\<close>

text \<open>
  Each method is a \<^verbatim>\<open>try\<close> body (\<open>_try\<close>, which may raise) and the \<^verbatim>\<open>except Exception\<close>
  around it, which turns every exception into the failure value. Log lines are left out.
\<close>

definition save_flow_data_try ::
  "firestore \<Rightarrow> json \<Rightarrow> json list \<Rightarrow> json list \<Rightarrow> json \<Rightarrow> (exn + bool) \<times> firestore" where
  "save_flow_data_try db user_id nodes edges theme =
     (case document db user_id of
        (Inl e, db0) \<Rightarrow> (Inl e, db0)
      | (Inr doc_ref, db0) \<Rightarrow>
          (let data = fmap_of_list
                 [(''nodes'', Plain (JList nodes)),
                  (''edges'', Plain (JList edges)),
                  (''theme'', Plain theme),
                  (''updated_at'', SERVER_TIMESTAMP),
                  (''node_count'', Plain (JInt (int (length nodes)))),
                  (''edge_count'', Plain (JInt (int (length edges))))]
           in case doc_set db0 doc_ref data of
                (Inl e, db') \<Rightarrow> (Inl e, db')
              | (Inr u, db') \<Rightarrow> (Inr True, db')))"

definition save_flow_data ::
  "firestore \<Rightarrow> json \<Rightarrow> json list \<Rightarrow> json list \<Rightarrow> json \<Rightarrow> bool \<times> firestore" where
  "save_flow_data db user_id nodes edges theme =
     (case save_flow_data_try db user_id nodes edges theme of
        (Inl e, db') \<Rightarrow> (False, db')
      | (Inr ok, db') \<Rightarrow> (ok, db'))"

definition get_flow_data_try :: "firestore \<Rightarrow> json \<Rightarrow> (exn + document option) \<times> firestore" where
  "get_flow_data_try db user_id =
     (case document db user_id of
        (Inl e, db0) \<Rightarrow> (Inl e, db0)
      | (Inr doc_ref, db0) \<Rightarrow>
          (case doc_get db0 doc_ref of
             (Inl e, db') \<Rightarrow> (Inl e, db')
           | (Inr None, db') \<Rightarrow> (Inr None, db')
           | (Inr (Some data), db') \<Rightarrow> (Inr (Some data), db')))"

definition get_flow_data :: "firestore \<Rightarrow> json \<Rightarrow> document option \<times> firestore" where
  "get_flow_data db user_id =
     (case get_flow_data_try db user_id of
        (Inl e, db') \<Rightarrow> (None, db')
      | (Inr found, db') \<Rightarrow> (found, db'))"

definition delete_flow_data_try :: "firestore \<Rightarrow> json \<Rightarrow> (exn + bool) \<times> firestore" where
  "delete_flow_data_try db user_id =
     (case document db user_id of
        (Inl e, db0) \<Rightarrow> (Inl e, db0)
      | (Inr doc_ref, db0) \<Rightarrow>
          (case doc_delete db0 doc_ref of
             (Inl e, db') \<Rightarrow> (Inl e, db')
           | (Inr u, db') \<Rightarrow> (Inr True, db')))"

definition delete_flow_data :: "firestore \<Rightarrow> json \<Rightarrow> bool \<times> firestore" where
  "delete_flow_data db user_id =
     (case delete_flow_data_try db user_id of
        (Inl e, db') \<Rightarrow> (False, db')
      | (Inr ok, db') \<Rightarrow> (ok, db'))"

text \<open>
  \<open>add_node\<close> writes into the caller's \<open>node\<close> object; the model returns the node as it is
  after the call, between the flag and the store. \<open>now\<close> is what
  \<^verbatim>\<open>datetime.now().isoformat()\<close> returns at the call.
\<close>

definition add_node_try :: "string \<Rightarrow> firestore \<Rightarrow> json \<Rightarrow> json \<Rightarrow> (exn + bool) \<times> json \<times> firestore" where
  "add_node_try now db user_id node =
     (case document db user_id of
        (Inl e, db0) \<Rightarrow> (Inl e, node, db0)
      | (Inr doc_ref, db0) \<Rightarrow>
          (case getitem node ''data'' of
             Inl e \<Rightarrow> (Inl e, node, db0)
           | Inr data \<Rightarrow>
               (case setitem data ''created_at'' (JStr now) of
                  Inl e \<Rightarrow> (Inl e, node, db0)
                | Inr data' \<Rightarrow>
                    (case setitem node ''data'' data' of
                       Inl e \<Rightarrow> (Inl e, node, db0)
                     | Inr node' \<Rightarrow>
                         (case doc_update db0 doc_ref
                                 (fmap_of_list
                                    [(''nodes'', ArrayUnion [node']),
                                     (''updated_at'', SERVER_TIMESTAMP)]) of
                            (Inl e, db') \<Rightarrow> (Inl e, node', db')
                          | (Inr u, db') \<Rightarrow> (Inr True, node', db'))))))"

definition add_node :: "string \<Rightarrow> firestore \<Rightarrow> json \<Rightarrow> json \<Rightarrow> bool \<times> json \<times> firestore" where
  "add_node now db user_id node =
     (case add_node_try now db user_id node of
        (Inl e, node', db') \<Rightarrow> (False, node', db')
      | (Inr ok, node', db') \<Rightarrow> (ok, node', db'))"

text \<open>The two filters of \<open>remove_node\<close>; \<^verbatim>\<open>and\<close> does not evaluate its right side after a false left.\<close>

definition node_kept :: "string \<Rightarrow> json \<Rightarrow> exn + bool" where
  "node_kept node_id n =
     (case getitem n ''id'' of Inl e \<Rightarrow> Inl e | Inr i \<Rightarrow> Inr (i \<noteq> JStr node_id))"

definition edge_kept :: "string \<Rightarrow> json \<Rightarrow> exn + bool" where
  "edge_kept node_id e =
     (case getitem e ''source'' of
        Inl x \<Rightarrow> Inl x
      | Inr s \<Rightarrow>
          if s \<noteq> JStr node_id
          then (case getitem e ''target'' of Inl x \<Rightarrow> Inl x | Inr t \<Rightarrow> Inr (t \<noteq> JStr node_id))
          else Inr False)"

definition remove_node_try :: "firestore \<Rightarrow> json \<Rightarrow> string \<Rightarrow> (exn + bool) \<times> firestore" where
  "remove_node_try db user_id node_id =
     (let (flow_data, db1) = get_flow_data db user_id in
      case flow_data of
        None \<Rightarrow> (Inr False, db1)
      | Some d \<Rightarrow>
        if \<not> truthy (JObj d) then (Inr False, db1)
        else
        (case py_iter (dict_get d ''nodes'' (JList [])) of
           Inl e \<Rightarrow> (Inl e, db1)
         | Inr ns \<Rightarrow>
        (case comprehension (node_kept node_id) ns of
           Inl e \<Rightarrow> (Inl e, db1)
         | Inr updated_nodes \<Rightarrow>
        (case py_iter (dict_get d ''edges'' (JList [])) of
           Inl e \<Rightarrow> (Inl e, db1)
         | Inr es \<Rightarrow>
        (case comprehension (edge_kept node_id) es of
           Inl e \<Rightarrow> (Inl e, db1)
         | Inr updated_edges \<Rightarrow>
        (case document db1 user_id of
           (Inl e, db2) \<Rightarrow> (Inl e, db2)
         | (Inr doc_ref, db2) \<Rightarrow>
        (case doc_update db2 doc_ref
                (fmap_of_list
                   [(''nodes'', Plain (JList updated_nodes)),
                    (''edges'', Plain (JList updated_edges)),
                    (''updated_at'', SERVER_TIMESTAMP)]) of
           (Inl e, db3) \<Rightarrow> (Inl e, db3)
         | (Inr u, db3) \<Rightarrow> (Inr True, db3))))))))"

definition remove_node :: "firestore \<Rightarrow> json \<Rightarrow> string \<Rightarrow> bool \<times> firestore" where
  "remove_node db user_id node_id =
     (case remove_node_try db user_id node_id of
        (Inl e, db') \<Rightarrow> (False, db')
      | (Inr ok, db') \<Rightarrow> (ok, db'))"

section \<open>The request handlers\<close>

text \<open>
  A handler takes the module's \<^verbatim>\<open>flow_manager\<close> (\<open>None\<close> when Firebase failed to
  initialise, else the manager, that is the store behind it) and returns the response,
  a JSON body with a status, and the manager afterwards. \<open>request_json\<close> is the outcome
  of \<^verbatim>\<open>request.get_json()\<close>, which may raise. Where nothing inside a handler's
  \<^verbatim>\<open>try\<close> can raise (the data access layer never does), its \<^verbatim>\<open>except\<close> has no branch.
\<close>

type_synonym response = "json \<times> nat"

definition jsonify :: "(string \<times> json) list \<Rightarrow> json" where
  "jsonify items = JObj (fmap_of_list items)"

definition not_initialized :: response where
  "not_initialized = (jsonify [(''error'', JStr ''Firebase not initialized'')], 500)"

text \<open>The handlers' own \<^verbatim>\<open>except Exception as e\<close>.\<close>

definition caught :: "exn \<Rightarrow> response" where
  "caught e = (jsonify [(''error'', JStr (str_exn e))], 500)"

definition save_flow_try :: "firestore \<Rightarrow> exn + json \<Rightarrow> (exn + response) \<times> firestore" where
  "save_flow_try db request_json =
     (case request_json of
        Inl e \<Rightarrow> (Inl e, db)
      | Inr data \<Rightarrow>
     (case py_get data ''user_id'' (JStr ''default_user'') of
        Inl e \<Rightarrow> (Inl e, db)
      | Inr user_id \<Rightarrow>
     (case py_get data ''nodes'' (JList []) of
        Inl e \<Rightarrow> (Inl e, db)
      | Inr nodes \<Rightarrow>
     (case py_get data ''edges'' (JList []) of
        Inl e \<Rightarrow> (Inl e, db)
      | Inr edges \<Rightarrow>
     (case py_get data ''theme'' (JStr ''light'') of
        Inl e \<Rightarrow> (Inl e, db)
      | Inr theme \<Rightarrow>
     (case (nodes, edges) of
        (JList ns, JList es) \<Rightarrow>
          (let (success, db') = save_flow_data db user_id ns es theme in
           if success
           then (Inr (jsonify [(''message'', JStr ''Flow data saved successfully''),
                               (''node_count'', JInt (int (length ns))),
                               (''edge_count'', JInt (int (length es)))], 200), db')
           else (Inr (jsonify [(''error'', JStr ''Failed to save flow data'')], 500), db'))
      | _ \<Rightarrow> (Inr (jsonify [(''error'', JStr ''Invalid data format'')], 400), db)))))))"

definition save_flow :: "firestore option \<Rightarrow> exn + json \<Rightarrow> response \<times> firestore option" where
  "save_flow flow_manager request_json =
     (case flow_manager of
        None \<Rightarrow> (not_initialized, None)
      | Some db \<Rightarrow>
          (case save_flow_try db request_json of
             (Inl e, db') \<Rightarrow> (caught e, Some db')
           | (Inr r, db') \<Rightarrow> (r, Some db')))"

text \<open>The body \<open>load_flow\<close> sends when \<^verbatim>\<open>flow_data\<close> is falsy.\<close>

definition empty_default :: json where
  "empty_default =
     jsonify [(''nodes'', JList []),
              (''edges'', JList []),
              (''theme'', JStr ''light''),
              (''message'', JStr ''No data found for user'')]"

definition load_flow :: "firestore option \<Rightarrow> string \<Rightarrow> response \<times> firestore option" where
  "load_flow flow_manager user_id =
     (case flow_manager of
        None \<Rightarrow> (not_initialized, None)
      | Some db \<Rightarrow>
          (let (flow_data, db') = get_flow_data db (JStr user_id) in
           case flow_data of
             None \<Rightarrow> ((empty_default, 200), Some db')
           | Some d \<Rightarrow>
               if truthy (JObj d)
               then ((jsonify [(''nodes'', dict_get d ''nodes'' (JList [])),
                               (''edges'', dict_get d ''edges'' (JList [])),
                               (''theme'', dict_get d ''theme'' (JStr ''light'')),
                               (''updated_at'', dict_get d ''updated_at'' JNull),
                               (''node_count'', dict_get d ''node_count'' (JInt 0)),
                               (''edge_count'', dict_get d ''edge_count'' (JInt 0))], 200),
                     Some db')
               else ((empty_default, 200), Some db')))"

text \<open>The route \<^verbatim>\<open>POST /api/flow/node\<close>; the source calls this function \<^verbatim>\<open>add_node\<close> too.\<close>

definition add_node_route_try ::
  "string \<Rightarrow> firestore \<Rightarrow> exn + json \<Rightarrow> (exn + response) \<times> firestore" where
  "add_node_route_try now db request_json =
     (case request_json of
        Inl e \<Rightarrow> (Inl e, db)
      | Inr data \<Rightarrow>
     (case py_get data ''user_id'' (JStr ''default_user'') of
        Inl e \<Rightarrow> (Inl e, db)
      | Inr user_id \<Rightarrow>
     (case py_get data ''node'' JNull of
        Inl e \<Rightarrow> (Inl e, db)
      | Inr node \<Rightarrow>
          if \<not> truthy node
          then (Inr (jsonify [(''error'', JStr ''Node data required'')], 400), db)
          else
            (let (success, node', db') = add_node now db user_id node in
             if success
             then (Inr (jsonify [(''message'', JStr ''Node added successfully'')], 200), db')
             else (Inr (jsonify [(''error'', JStr ''Failed to add node'')], 500), db')))))"

definition add_node_route ::
  "string \<Rightarrow> firestore option \<Rightarrow> exn + json \<Rightarrow> response \<times> firestore option" where
  "add_node_route now flow_manager request_json =
     (case flow_manager of
        None \<Rightarrow> (not_initialized, None)
      | Some db \<Rightarrow>
          (case add_node_route_try now db request_json of
             (Inl e, db') \<Rightarrow> (caught e, Some db')
           | (Inr r, db') \<Rightarrow> (r, Some db')))"

definition delete_node :: "firestore option \<Rightarrow> string \<Rightarrow> string \<Rightarrow> response \<times> firestore option" where
  "delete_node flow_manager user_id node_id =
     (case flow_manager of
        None \<Rightarrow> (not_initialized, None)
      | Some db \<Rightarrow>
          (let (success, db') = remove_node db (JStr user_id) node_id in
           if success
           then ((jsonify [(''message'', JStr ''Node deleted successfully'')], 200), Some db')
           else ((jsonify [(''error'', JStr ''Failed to delete node'')], 500), Some db')))"

definition delete_flow :: "firestore option \<Rightarrow> string \<Rightarrow> response \<times> firestore option" where
  "delete_flow flow_manager user_id =
     (case flow_manager of
        None \<Rightarrow> (not_initialized, None)
      | Some db \<Rightarrow>
          (let (success, db') = delete_flow_data db (JStr user_id) in
           if success
           then ((jsonify [(''message'', JStr ''Flow data deleted successfully'')], 200), Some db')
           else ((jsonify [(''error'', JStr ''Failed to delete flow data'')], 500), Some db')))"

section \<open>Vocabulary of the statements\<close>

text \<open>The next call to the store raises.\<close>

definition store_down :: "firestore \<Rightarrow> bool" where
  "store_down db = (case outages db of [] \<Rightarrow> False | down # later \<Rightarrow> down)"

text \<open>The store once a call has been issued to it and before the call takes effect.\<close>

definition called :: "rpc \<Rightarrow> firestore \<Rightarrow> firestore" where
  "called c db = db\<lparr>outages := tl (outages db), calls := calls db @ [c]\<rparr>"

text \<open>\<open>v\<close> is a mapping that has the key \<open>k\<close>.\<close>

fun has_key :: "string \<Rightarrow> json \<Rightarrow> bool" where
  "has_key k (JObj m) = (fmlookup m k \<noteq> None)"
| "has_key k v = False"

text \<open>\<^verbatim>\<open>isinstance(v, list)\<close>.\<close>

fun is_list :: "json \<Rightarrow> bool" where
  "is_list (JList xs) = True"
| "is_list v = False"

text \<open>The mapping under the key \<^verbatim>\<open>data\<close> of a node, when the node has one.\<close>

fun data_of :: "json \<Rightarrow> document option" where
  "data_of (JObj m) = (case fmlookup m ''data'' of Some (JObj data) \<Rightarrow> Some data | _ \<Rightarrow> None)"
| "data_of v = None"

text \<open>A node with \<^verbatim>\<open>created_at\<close> set inside its \<^verbatim>\<open>data\<close> mapping.\<close>

definition stamped :: "string \<Rightarrow> json \<Rightarrow> json" where
  "stamped now node =
     (case node of
        JObj m \<Rightarrow>
          (case fmlookup m ''data'' of
             Some (JObj data) \<Rightarrow> JObj (fmupd ''data'' (JObj (fmupd ''created_at'' (JStr now) data)) m)
           | _ \<Rightarrow> node)
      | _ \<Rightarrow> node)"

text \<open>The defaults of a save request, as a request body.\<close>

definition request_defaults :: document where
  "request_defaults =
     fmap_of_list [(''user_id'', JStr ''default_user''),
                   (''nodes'', JList []),
                   (''edges'', JList []),
                   (''theme'', JStr ''light'')]"

section \<open>Sample data\<close>

text \<open>
  Three nodes and an edge; a store that answers and holds nothing; one that holds a
  document for \<^verbatim>\<open>u1\<close>; and that one again with an outage at its next call.
\<close>

definition n1 :: json where
  "n1 = JObj (fmap_of_list [(''id'', JStr ''n1''), (''data'', JObj fmempty)])"

definition n2 :: json where
  "n2 = JObj (fmap_of_list [(''id'', JStr ''n2''), (''data'', JObj fmempty)])"

definition n3 :: json where
  "n3 = JObj (fmap_of_list [(''id'', JStr ''n3''), (''data'', JObj fmempty)])"

definition e12 :: json where
  "e12 = JObj (fmap_of_list [(''source'', JStr ''n1''), (''target'', JStr ''n2'')])"

definition fresh_db :: firestore where
  "fresh_db = \<lparr>docs = Map.empty, server_time = 7, outages = [], calls = [],
                auto_id = (\<lambda>n. ''auto''), drawn = 0\<rparr>"

definition u1_doc :: document where
  "u1_doc = fmap_of_list
     [(''nodes'', JList [n1, n2]),
      (''edges'', JList [e12]),
      (''theme'', JStr ''dark''),
      (''updated_at'', JTime 7),
      (''node_count'', JInt 2),
      (''edge_count'', JInt 1)]"

definition stored_db :: firestore where
  "stored_db = \<lparr>docs = [''u1'' \<mapsto> u1_doc], server_time = 8, outages = [], calls = [],
                 auto_id = (\<lambda>n. ''auto''), drawn = 0\<rparr>"

definition failing_db :: firestore where
  "failing_db = \<lparr>docs = [''u1'' \<mapsto> u1_doc], server_time = 8, outages = [True], calls = [],
                  auto_id = (\<lambda>n. ''auto''), drawn = 0\<rparr>"

text \<open>
  A node without an \<open>id\<close>, which \<open>save_flow\<close> accepts as it accepts any list entry, and
  the store after \<open>fresh_db\<close> has saved it next to \<open>n1\<close> for \<^verbatim>\<open>u1\<close>.
\<close>

definition plain_node :: json where
  "plain_node = JObj (fmap_of_list [(''label'', JStr ''a'')])"

definition idless_doc :: document where
  "idless_doc = fmap_of_list
     [(''nodes'', JList [plain_node, n1]),
      (''edges'', JList []),
      (''theme'', JStr ''light''),
      (''updated_at'', JTime 7),
      (''node_count'', JInt 2),
      (''edge_count'', JInt 0)]"

definition idless_db :: firestore where
  "idless_db = \<lparr>docs = [''u1'' \<mapsto> idless_doc], server_time = 8, outages = [],
                 calls = [SetCall ''u1''], auto_id = (\<lambda>n. ''auto''), drawn = 0\<rparr>"


section \<open>Facts about the store and the helpers\<close>

lemma fmmap_fmupd: "fmmap f (fmupd k v m) = fmupd k (f v) (fmmap f m)"
  by (rule fmap_ext) simp

lemma is_document_id_iff: "is_document_id s = even (count_list s CHR ''/'')"
  by (simp add: is_document_id_def path_elements_def)

lemma slashless_is_document_id: "CHR ''/'' \<notin> set s \<Longrightarrow> is_document_id s"
  by (simp add: is_document_id_iff)

lemma document_keeps [simp]:
  "docs (snd (document db user_id)) = docs db"
  "server_time (snd (document db user_id)) = server_time db"
  "outages (snd (document db user_id)) = outages db"
  "calls (snd (document db user_id)) = calls db"
  by (cases "(db, user_id)" rule: document.cases; simp add: Let_def)+

lemma issue_eq: "issue c db = (store_down db, called c db)"
  by (cases "outages db") (simp_all add: issue_def store_down_def called_def)

lemma called_simps [simp]:
  "docs (called c db) = docs db"
  "server_time (called c db) = server_time db"
  "calls (called c db) = calls db @ [c]"
  "outages (called c db) = tl (outages db)"
  by (simp_all add: called_def)

lemma store_down_document [simp]: "store_down (snd (document db user_id)) = store_down db"
  by (simp add: store_down_def)

lemma save_flow_data_True:
  assumes "save_flow_data db (JStr uid) nodes edges theme = (True, db1)"
  shows "is_document_id uid \<and>
           docs db1 = (docs db)(uid \<mapsto> fmap_of_list
                 [(''nodes'', JList nodes),
                  (''edges'', JList edges),
                  (''theme'', theme),
                  (''updated_at'', JTime (server_time db)),
                  (''node_count'', JInt (int (length nodes))),
                  (''edge_count'', JInt (int (length edges)))])"
  using assms
  by (auto simp: save_flow_data_def save_flow_data_try_def doc_set_def issue_eq fmmap_fmupd
           split: prod.splits sum.splits if_splits)

lemma get_flow_data_eq:
  "get_flow_data db (JStr uid) =
     (if is_document_id uid
      then (if store_down db then None else docs db uid, called (GetCall uid) db)
      else (None, db))"
  by (simp add: get_flow_data_def get_flow_data_try_def doc_get_def issue_eq split: option.splits)

lemma get_flow_data_Some:
  assumes "get_flow_data db (JStr uid) = (Some d, db')"
  shows "docs db uid = Some d"
  using assms by (simp add: get_flow_data_eq split: if_splits)

lemma delete_flow_data_eq:
  "delete_flow_data db (JStr uid) =
     (if \<not> is_document_id uid then (False, db)
      else if store_down db then (False, called (DeleteCall uid) db)
      else (True, (called (DeleteCall uid) db)
                    \<lparr>docs := (docs db)(uid := None), server_time := Suc (server_time db)\<rparr>))"
  by (simp add: delete_flow_data_def delete_flow_data_try_def doc_delete_def issue_eq)

lemma doc_update_eq:
  "doc_update db ref fu =
     (if store_down db then (Inl StoreError, called (UpdateCall ref) db)
      else case docs db ref of
             None \<Rightarrow> (Inl NotFound, called (UpdateCall ref) db)
           | Some d \<Rightarrow>
               (Inr (),
                (called (UpdateCall ref) db)
                  \<lparr>docs := (docs db)(ref \<mapsto>
                     d ++\<^sub>f fmmap_keys (\<lambda>k. resolve (server_time db) (fmlookup d k)) fu),
                   server_time := Suc (server_time db)\<rparr>))"
  by (simp add: doc_update_def issue_eq split: option.splits)

lemma comprehension_filter:
  "(\<And>x. x \<in> set xs \<Longrightarrow> cond x = Inr (p x)) \<Longrightarrow> comprehension cond xs = Inr (filter p xs)"
  by (induction xs) simp_all

lemma node_kept_has_id:
  "has_key ''id'' n \<Longrightarrow> node_kept node_id n = Inr (getitem n ''id'' \<noteq> Inr (JStr node_id))"
  by (cases n) (auto simp: node_kept_def split: option.splits)

lemma edge_kept_has_ends:
  "has_key ''source'' e \<Longrightarrow> has_key ''target'' e \<Longrightarrow>
   edge_kept node_id e =
     Inr (getitem e ''source'' \<noteq> Inr (JStr node_id) \<and> getitem e ''target'' \<noteq> Inr (JStr node_id))"
  by (cases e) (auto simp: edge_kept_def split: option.splits)

lemma remove_node_present:
  assumes d: "docs db user_id = Some d"
    and id: "is_document_id user_id"
    and ns: "fmlookup d ''nodes'' = Some (JList ns)"
    and es: "fmlookup d ''edges'' = Some (JList es)"
    and wn: "list_all (has_key ''id'') ns"
    and we: "list_all (\<lambda>e. has_key ''source'' e \<and> has_key ''target'' e) es"
    and up1: "\<not> store_down db"
    and up2: "\<not> store_down (called (GetCall user_id) db)"
  shows "fst (remove_node db (JStr user_id) node_id) \<and>
         docs (snd (remove_node db (JStr user_id) node_id)) =
           (docs db)(user_id \<mapsto>
              fmupd ''nodes'' (JList (filter (\<lambda>n. getitem n ''id'' \<noteq> Inr (JStr node_id)) ns))
             (fmupd ''edges'' (JList (filter (\<lambda>e. getitem e ''source'' \<noteq> Inr (JStr node_id) \<and>
                                               getitem e ''target'' \<noteq> Inr (JStr node_id)) es))
             (fmupd ''updated_at'' (JTime (server_time db)) d)))"
proof -
  have dne: "fmdom d \<noteq> {||}"
    using ns fmdom_notD [of "''nodes''" d] by auto
  have cn: "comprehension (node_kept node_id) ns =
              Inr (filter (\<lambda>n. getitem n ''id'' \<noteq> Inr (JStr node_id)) ns)"
    using wn by (intro comprehension_filter node_kept_has_id) (simp add: list_all_iff)
  have ce: "comprehension (edge_kept node_id) es =
              Inr (filter (\<lambda>e. getitem e ''source'' \<noteq> Inr (JStr node_id) \<and>
                                getitem e ''target'' \<noteq> Inr (JStr node_id)) es)"
    using we by (intro comprehension_filter edge_kept_has_ends) (simp_all add: list_all_iff)
  have m: "d ++\<^sub>f fmmap_keys (\<lambda>k. resolve t (fmlookup d k))
              (fmap_of_list [(''nodes'', Plain a), (''edges'', Plain b), (''updated_at'', SERVER_TIMESTAMP)])
           = fmupd ''nodes'' a (fmupd ''edges'' b (fmupd ''updated_at'' (JTime t) d))" for a b t
    by (rule fmap_ext) simp
  show ?thesis
    using d id ns es up1 up2
    by (simp add: remove_node_def remove_node_try_def get_flow_data_eq doc_update_eq dict_get_def
          dne cn ce m del: fmap_of_list_simps)
qed

lemma remove_node_absent:
  assumes "docs db user_id = None"
  shows "remove_node db (JStr user_id) node_id =
           (False, if is_document_id user_id then called (GetCall user_id) db else db)"
  using assms by (simp add: remove_node_def remove_node_try_def get_flow_data_eq)

lemma add_node_refused:
  assumes "fst (document db user_id) = Inl e"
  shows "add_node now db user_id node = (False, node, snd (document db user_id))"
  using assms by (cases "document db user_id") (simp add: add_node_def add_node_try_def)

lemma add_node_no_data:
  assumes "data_of node = None"
  shows "add_node now db user_id node = (False, node, snd (document db user_id))"
proof (cases "document db user_id")
  case (Pair r db0)
  show ?thesis
  proof (cases r)
    case (Inl e)
    then show ?thesis using Pair by (simp add: add_node_def add_node_try_def)
  next
    case (Inr ref)
    show ?thesis
    proof (cases "getitem node ''data''")
      case (Inl e)
      then show ?thesis using Pair Inr by (simp add: add_node_def add_node_try_def)
    next
      case data: (Inr v)
      then obtain m where m: "node = JObj m" "fmlookup m ''data'' = Some v"
        by (cases node) (auto split: option.splits)
      with assms have "\<And>x. v \<noteq> JObj x"
        by (auto split: option.splits json.splits)
      then have "setitem v ''created_at'' (JStr now) = Inl TypeError"
        by (cases v) auto
      then show ?thesis using Pair Inr data by (simp add: add_node_def add_node_try_def)
    qed
  qed
qed

lemma add_node_with_data:
  assumes "data_of node = Some data" and "document db user_id = (Inr ref, db0)"
  shows "add_node now db user_id node =
     (if store_down db0 then (False, stamped now node, called (UpdateCall ref) db0)
      else case docs db0 ref of
        None \<Rightarrow> (False, stamped now node, called (UpdateCall ref) db0)
      | Some d \<Rightarrow>
          (True, stamped now node,
           (called (UpdateCall ref) db0)
             \<lparr>docs := (docs db0)(ref \<mapsto>
                 fmupd ''nodes''
                   (resolve (server_time db0) (fmlookup d ''nodes'') (ArrayUnion [stamped now node]))
                (fmupd ''updated_at'' (JTime (server_time db0)) d)),
              server_time := Suc (server_time db0)\<rparr>))"
proof -
  from assms obtain m where m: "node = JObj m" "fmlookup m ''data'' = Some (JObj data)"
    by (cases node) (auto split: option.splits json.splits)
  have u: "d ++\<^sub>f fmmap_keys (\<lambda>k. resolve t (fmlookup d k))
              (fmap_of_list [(''nodes'', ArrayUnion xs), (''updated_at'', SERVER_TIMESTAMP)])
           = fmupd ''nodes'' (resolve t (fmlookup d ''nodes'') (ArrayUnion xs))
               (fmupd ''updated_at'' (JTime t) d)" for d t xs
    by (rule fmap_ext) simp
  show ?thesis
    using m assms(2)
    by (simp add: add_node_def add_node_try_def stamped_def doc_update_eq u
          del: fmap_of_list_simps split: option.splits)
qed

lemma add_node_True:
  assumes "add_node now db (JStr uid) node = (True, node', db')"
  shows "\<exists>data d. data_of node = Some data \<and> is_document_id uid \<and> \<not> store_down db \<and>
           docs db uid = Some d"
proof -
  have "data_of node \<noteq> None"
    using assms add_node_no_data [of node now db "JStr uid"] by auto
  then obtain data where data: "data_of node = Some data" by auto
  have id: "is_document_id uid"
    using assms add_node_refused [of db "JStr uid" ValueError now node]
    by (cases "is_document_id uid") simp_all
  then have "document db (JStr uid) = (Inr uid, db)"
    by simp
  from add_node_with_data [OF data this, of now] assms data id show ?thesis
    by (auto split: if_splits option.splits)
qed

lemma resolve_union_one:
  "resolve t cur (ArrayUnion [x]) =
     JList (case cur of Some (JList ns) \<Rightarrow> if x \<in> set ns then ns else ns @ [x] | _ \<Rightarrow> [x])"
  by (cases "(t, cur, ArrayUnion [x])" rule: resolve.cases) auto

lemma dict_get_defaults:
  "dict_get body ''user_id'' (JStr ''default_user'') = dict_get (request_defaults ++\<^sub>f body) ''user_id'' x"
  "dict_get body ''nodes'' (JList []) = dict_get (request_defaults ++\<^sub>f body) ''nodes'' x"
  "dict_get body ''edges'' (JList []) = dict_get (request_defaults ++\<^sub>f body) ''edges'' x"
  "dict_get body ''theme'' (JStr ''light'') = dict_get (request_defaults ++\<^sub>f body) ''theme'' x"
  by (auto simp: dict_get_def request_defaults_def fmlookup_dom_iff split: option.splits)

lemma save_flow_absent_is_default:
  "save_flow (Some db) (Inr (JObj body)) =
   save_flow (Some db) (Inr (JObj (request_defaults ++\<^sub>f body)))"
  unfolding save_flow_def save_flow_try_def
  by (simp add: dict_get_defaults [symmetric] del: fmlookup_add)

lemma save_flow_all_fields:
  assumes "fmlookup b ''user_id'' = Some user_id"
    and "fmlookup b ''nodes'' = Some (JList nodes)"
    and "fmlookup b ''edges'' = Some (JList edges)"
    and "fmlookup b ''theme'' = Some theme"
  shows "snd (save_flow (Some db) (Inr (JObj b))) =
           Some (snd (save_flow_data db user_id nodes edges theme)) \<and>
         snd (fst (save_flow (Some db) (Inr (JObj b)))) =
           (if fst (save_flow_data db user_id nodes edges theme) then 200 else 500)"
  using assms
  by (simp add: save_flow_def save_flow_try_def dict_get_def split: prod.splits)

section \<open>Saving and loading\<close>

text \<open>
  C1. When \<open>save_flow_data\<close> returns \<open>True\<close> and the \<open>get_flow_data\<close> that follows finds a
  document, that document holds the saved nodes, edges and theme, its \<open>node_count\<close> and
  \<open>edge_count\<close> are the lengths of the saved lists, and \<open>load_flow\<close> answers 200 with
  exactly these values.
\<close>

theorem save_then_load:
  assumes saved: "save_flow_data db (JStr user_id) nodes edges theme = (True, db1)"
      and loaded: "get_flow_data db1 (JStr user_id) = (Some d, db2)"
  shows "fmlookup d ''nodes'' = Some (JList nodes) \<and>
         fmlookup d ''edges'' = Some (JList edges) \<and>
         fmlookup d ''theme'' = Some theme \<and>
         fmlookup d ''node_count'' = Some (JInt (int (length nodes))) \<and>
         fmlookup d ''edge_count'' = Some (JInt (int (length edges))) \<and>
         load_flow (Some db1) user_id =
           ((jsonify [(''nodes'', JList nodes),
                      (''edges'', JList edges),
                      (''theme'', theme),
                      (''updated_at'', JTime (server_time db)),
                      (''node_count'', JInt (int (length nodes))),
                      (''edge_count'', JInt (int (length edges)))], 200), Some db2)"
proof -
  let ?saved = "fmap_of_list
                 [(''nodes'', JList nodes),
                  (''edges'', JList edges),
                  (''theme'', theme),
                  (''updated_at'', JTime (server_time db)),
                  (''node_count'', JInt (int (length nodes))),
                  (''edge_count'', JInt (int (length edges)))]"
  from save_flow_data_True [OF saved] have "docs db1 user_id = Some ?saved"
    by simp
  moreover from get_flow_data_Some [OF loaded] have "docs db1 user_id = Some d" .
  ultimately have d: "d = ?saved"
    by simp
  show ?thesis
    using loaded by (simp add: d load_flow_def dict_get_def jsonify_def)
qed

theorem save_then_load_witness:
  "fst (save_flow_data fresh_db (JStr ''u1'') [n1, n2] [e12] (JStr ''dark'')) \<and>
   fst (load_flow (Some (snd (save_flow_data fresh_db (JStr ''u1'') [n1, n2] [e12] (JStr ''dark'')))) ''u1'') =
     (jsonify [(''nodes'', JList [n1, n2]),
               (''edges'', JList [e12]),
               (''theme'', JStr ''dark''),
               (''updated_at'', JTime 7),
               (''node_count'', JInt 2),
               (''edge_count'', JInt 1)], 200)"
proof -
  let ?s = "save_flow_data fresh_db (JStr ''u1'') [n1, n2] [e12] (JStr ''dark'')"
  let ?g = "get_flow_data (snd ?s) (JStr ''u1'')"
  have ok: "fst ?s"
    by (simp add: save_flow_data_def save_flow_data_try_def doc_set_def issue_def fresh_db_def
          is_document_id_iff)
  then have s: "?s = (True, snd ?s)"
    by (cases ?s) simp
  have "fst ?g \<noteq> None"
    by (simp add: save_flow_data_def save_flow_data_try_def doc_set_def issue_def fresh_db_def
          get_flow_data_def get_flow_data_try_def doc_get_def is_document_id_iff)
  then have g: "?g = (Some (the (fst ?g)), snd ?g)"
    by (cases ?g) auto
  from save_then_load [OF s g] ok show ?thesis
    by (simp add: fresh_db_def)
qed

text \<open>
  C5. When the store holds no document for \<open>user_id\<close>, \<open>load_flow\<close> answers 200 with
  empty nodes, empty edges and the theme \<^verbatim>\<open>light\<close>, whether the store answers the read
  or not, and the documents stay as they were. (The manager is initialised.)
\<close>

theorem load_flow_never_saved:
  assumes "docs db user_id = None"
  shows "fst (load_flow (Some db) user_id) =
           (jsonify [(''nodes'', JList []),
                     (''edges'', JList []),
                     (''theme'', JStr ''light''),
                     (''message'', JStr ''No data found for user'')], 200) \<and>
         map_option docs (snd (load_flow (Some db) user_id)) = Some (docs db)"
  using assms by (simp add: load_flow_def get_flow_data_eq empty_default_def)

theorem load_flow_never_saved_witness:
  "fst (load_flow (Some stored_db) ''nobody'') =
     (jsonify [(''nodes'', JList []),
               (''edges'', JList []),
               (''theme'', JStr ''light''),
               (''message'', JStr ''No data found for user'')], 200)"
  using load_flow_never_saved [of stored_db "''nobody''"] by (simp add: stored_db_def)

text \<open>
  C6. \<open>get_flow_data\<close> returns \<open>None\<close> when no document exists for \<open>user_id\<close>, and
  returns \<open>None\<close> when the read raises; whatever its \<^verbatim>\<open>try\<close> body raises, it returns
  \<open>None\<close> and hands no exception to its caller; so a store without the document and a
  store that is down give the same returned value.
\<close>

theorem get_flow_data_fails_closed:
  "(docs db user_id = None \<longrightarrow> fst (get_flow_data db (JStr user_id)) = None) \<and>
   (store_down db \<longrightarrow> fst (get_flow_data db (JStr user_id)) = None) \<and>
   (\<forall>e db'. get_flow_data_try db any_id = (Inl e, db') \<longrightarrow> get_flow_data db any_id = (None, db')) \<and>
   (docs db user_id = None \<and> store_down db2 \<longrightarrow>
      fst (get_flow_data db (JStr user_id)) = fst (get_flow_data db2 (JStr user_id)))"
  by (simp add: get_flow_data_eq) (simp add: get_flow_data_def)

theorem get_flow_data_fails_closed_witness:
  "fst (get_flow_data fresh_db (JStr ''u1'')) = None \<and>
   fst (get_flow_data failing_db (JStr ''u1'')) = None \<and>
   docs failing_db ''u1'' \<noteq> None \<and>
   get_flow_data_try failing_db (JStr ''u1'') = (Inl StoreError, called (GetCall ''u1'') failing_db)"
proof -
  have t: "get_flow_data_try failing_db (JStr ''u1'') = (Inl StoreError, called (GetCall ''u1'') failing_db)"
    by (simp add: get_flow_data_try_def doc_get_def issue_eq store_down_def failing_db_def
          is_document_id_iff)
  show ?thesis
    using get_flow_data_fails_closed [of fresh_db "''u1''" "JStr ''u1''" failing_db]
      get_flow_data_fails_closed [of failing_db "''u1''" "JStr ''u1''" failing_db] t
    by (simp add: fresh_db_def failing_db_def store_down_def)
qed

text \<open>
  C7. Not every \<open>user_id\<close> without a document is deleted with success: the client
  refuses to build a reference for an id such as \<^verbatim>\<open>a/b\<close>, and \<open>delete_flow_data\<close> then
  returns \<open>False\<close> without a call, on a store that answers (the counterexample below).
  What holds: after a \<open>delete_flow_data\<close> that returned \<open>True\<close>, from any store, the
  document is gone and \<open>load_flow\<close> for the same \<open>user_id\<close> answers 200 with the empty
  default. For an id the client takes as a document id, so for every id without \<^verbatim>\<open>/\<close>,
  the flag of \<open>delete_flow_data\<close> is \<open>True\<close> exactly when the store answers the call,
  whether a document exists for \<open>user_id\<close> or not: a missing document is no error. For
  an id the client refuses, \<open>delete_flow_data\<close> returns \<open>False\<close> and the store is as
  before.
\<close>

theorem delete_then_load:
  "(delete_flow_data db (JStr user_id) = (True, db1) \<longrightarrow>
      docs db1 user_id = None \<and>
      fst (load_flow (Some db1) user_id) =
        (jsonify [(''nodes'', JList []),
                  (''edges'', JList []),
                  (''theme'', JStr ''light''),
                  (''message'', JStr ''No data found for user'')], 200)) \<and>
   (is_document_id user_id \<or> CHR ''/'' \<notin> set user_id \<longrightarrow>
      fst (delete_flow_data db (JStr user_id)) = (\<not> store_down db)) \<and>
   (\<not> is_document_id user_id \<longrightarrow> delete_flow_data db (JStr user_id) = (False, db))"
proof (intro conjI impI)
  assume deleted: "delete_flow_data db (JStr user_id) = (True, db1)"
  then show "docs db1 user_id = None"
    by (auto simp: delete_flow_data_eq split: if_splits)
  then show "fst (load_flow (Some db1) user_id) =
        (jsonify [(''nodes'', JList []),
                  (''edges'', JList []),
                  (''theme'', JStr ''light''),
                  (''message'', JStr ''No data found for user'')], 200)"
    by (simp add: load_flow_def get_flow_data_eq empty_default_def)
next
  assume "is_document_id user_id \<or> CHR ''/'' \<notin> set user_id"
  then have "is_document_id user_id"
    using slashless_is_document_id by blast
  then show "fst (delete_flow_data db (JStr user_id)) = (\<not> store_down db)"
    by (simp add: delete_flow_data_eq)
next
  assume "\<not> is_document_id user_id"
  then show "delete_flow_data db (JStr user_id) = (False, db)"
    by (simp add: delete_flow_data_eq)
qed

theorem delete_then_load_witness:
  "fst (delete_flow_data stored_db (JStr ''u1'')) \<and>
   fst (load_flow (Some (snd (delete_flow_data stored_db (JStr ''u1'')))) ''u1'') =
     (jsonify [(''nodes'', JList []),
               (''edges'', JList []),
               (''theme'', JStr ''light''),
               (''message'', JStr ''No data found for user'')], 200) \<and>
   docs fresh_db ''u1'' = None \<and>
   fst (delete_flow_data fresh_db (JStr ''u1'')) \<and>
   delete_flow_data stored_db (JStr ''u1/x'') = (False, stored_db)"
proof -
  let ?r = "delete_flow_data stored_db (JStr ''u1'')"
  have id: "is_document_id ''u1''" "\<not> is_document_id ''u1/x''"
    by (simp_all add: is_document_id_iff)
  have ok: "fst ?r"
    by (simp add: delete_flow_data_eq store_down_def stored_db_def id)
  then have r: "?r = (True, snd ?r)"
    by (cases ?r) simp
  from delete_then_load [of stored_db "''u1''" "snd ?r"] r
  have "fst (load_flow (Some (snd ?r)) ''u1'') =
     (jsonify [(''nodes'', JList []),
               (''edges'', JList []),
               (''theme'', JStr ''light''),
               (''message'', JStr ''No data found for user'')], 200)"
    by simp
  moreover have "fst (delete_flow_data fresh_db (JStr ''u1''))"
    using delete_then_load [of fresh_db "''u1''" fresh_db] id
    by (simp add: fresh_db_def store_down_def)
  moreover have "delete_flow_data stored_db (JStr ''u1/x'') = (False, stored_db)"
    using delete_then_load [of stored_db "''u1/x''" stored_db] id
    by simp
  ultimately show ?thesis
    using ok by (simp add: fresh_db_def)
qed

text \<open>
  The id \<^verbatim>\<open>a/b\<close> has no document in \<open>fresh_db\<close> and the store answers, yet
  \<open>delete_flow_data\<close> returns \<open>False\<close>; it has issued no call.
\<close>

theorem delete_then_load_counterexample:
  "docs fresh_db ''a/b'' = None \<and>
   \<not> store_down fresh_db \<and>
   delete_flow_data fresh_db (JStr ''a/b'') = (False, fresh_db)"
  by (simp add: delete_flow_data_eq is_document_id_iff store_down_def fresh_db_def)

section \<open>Changing the nodes of a document\<close>

text \<open>
  C2. Not every document with a \<open>nodes\<close> and an \<open>edges\<close> array is filtered: an entry
  without the key the filter reads makes \<open>remove_node\<close> return \<open>False\<close> and write
  nothing (the counterexample below). What holds: let the document of \<open>user_id\<close> exist
  (under an id the client builds a reference for, as a stored document's is; the map of
  documents does not say so by itself) with a \<open>nodes\<close> array whose entries are mappings
  with an \<open>id\<close> and an \<open>edges\<close> array whose entries are mappings with a \<open>source\<close> and a
  \<open>target\<close>, and let the store answer the read and the write. Then \<open>remove_node\<close>
  returns \<open>True\<close> and the document becomes the old one with \<open>nodes\<close> replaced by the
  entries whose id differs from \<open>node_id\<close>, \<open>edges\<close> by the entries whose source and
  target both differ from it, and \<open>updated_at\<close> by the write time. When no document
  exists for \<open>user_id\<close>, \<open>remove_node\<close> returns \<open>False\<close>, the documents stay as they
  were, and it issues no call but the read, and not even the read when the client
  refuses the id.
\<close>

theorem remove_node_filters:
  "(docs db user_id = Some d \<and>
    is_document_id user_id \<and>
    fmlookup d ''nodes'' = Some (JList ns) \<and>
    fmlookup d ''edges'' = Some (JList es) \<and>
    list_all (has_key ''id'') ns \<and>
    list_all (\<lambda>e. has_key ''source'' e \<and> has_key ''target'' e) es \<and>
    \<not> store_down db \<and> \<not> store_down (called (GetCall user_id) db) \<longrightarrow>
      fst (remove_node db (JStr user_id) node_id) \<and>
      docs (snd (remove_node db (JStr user_id) node_id)) =
        (docs db)(user_id \<mapsto>
           fmupd ''nodes'' (JList (filter (\<lambda>n. getitem n ''id'' \<noteq> Inr (JStr node_id)) ns))
          (fmupd ''edges'' (JList (filter (\<lambda>e. getitem e ''source'' \<noteq> Inr (JStr node_id) \<and>
                                            getitem e ''target'' \<noteq> Inr (JStr node_id)) es))
          (fmupd ''updated_at'' (JTime (server_time db)) d)))) \<and>
   (docs db user_id = None \<longrightarrow>
      \<not> fst (remove_node db (JStr user_id) node_id) \<and>
      docs (snd (remove_node db (JStr user_id) node_id)) = docs db \<and>
      calls (snd (remove_node db (JStr user_id) node_id)) =
        calls db @ (if is_document_id user_id then [GetCall user_id] else []))"
  using remove_node_present [of db user_id d ns es node_id] remove_node_absent [of db user_id node_id]
  by simp

theorem remove_node_filters_witness:
  "fst (remove_node stored_db (JStr ''u1'') ''n1'') \<and>
   map_option (\<lambda>d. (fmlookup d ''nodes'', fmlookup d ''edges''))
     (docs (snd (remove_node stored_db (JStr ''u1'') ''n1'')) ''u1'') =
       Some (Some (JList [n2]), Some (JList [])) \<and>
   \<not> fst (remove_node fresh_db (JStr ''u1'') ''n1'') \<and>
   docs (snd (remove_node fresh_db (JStr ''u1'') ''n1'')) = docs fresh_db"
proof -
  have a: "docs stored_db ''u1'' = Some u1_doc \<and>
    is_document_id ''u1'' \<and>
    fmlookup u1_doc ''nodes'' = Some (JList [n1, n2]) \<and>
    fmlookup u1_doc ''edges'' = Some (JList [e12]) \<and>
    list_all (has_key ''id'') [n1, n2] \<and>
    list_all (\<lambda>e. has_key ''source'' e \<and> has_key ''target'' e) [e12] \<and>
    \<not> store_down stored_db \<and> \<not> store_down (called (GetCall ''u1'') stored_db)"
    by (simp add: stored_db_def u1_doc_def n1_def n2_def e12_def store_down_def called_def
          is_document_id_iff)
  have f: "filter (\<lambda>n. getitem n ''id'' \<noteq> Inr (JStr ''n1'')) [n1, n2] = [n2]"
    "filter (\<lambda>e. getitem e ''source'' \<noteq> Inr (JStr ''n1'') \<and>
                  getitem e ''target'' \<noteq> Inr (JStr ''n1'')) [e12] = []"
    by (simp_all add: n1_def n2_def e12_def)
  have b: "docs fresh_db ''u1'' = None"
    by (simp add: fresh_db_def)
  from remove_node_filters [of stored_db "''u1''" u1_doc "[n1, n2]" "[e12]" "''n1''"] a
  have present: "fst (remove_node stored_db (JStr ''u1'') ''n1'') \<and>
      docs (snd (remove_node stored_db (JStr ''u1'') ''n1'')) =
        (docs stored_db)(''u1'' \<mapsto>
           fmupd ''nodes'' (JList (filter (\<lambda>n. getitem n ''id'' \<noteq> Inr (JStr ''n1'')) [n1, n2]))
          (fmupd ''edges'' (JList (filter (\<lambda>e. getitem e ''source'' \<noteq> Inr (JStr ''n1'') \<and>
                                            getitem e ''target'' \<noteq> Inr (JStr ''n1'')) [e12]))
          (fmupd ''updated_at'' (JTime (server_time stored_db)) u1_doc)))"
    by blast
  from remove_node_filters [of fresh_db "''u1''" u1_doc "[n1, n2]" "[e12]" "''n1''"] b
  have absent: "\<not> fst (remove_node fresh_db (JStr ''u1'') ''n1'') \<and>
      docs (snd (remove_node fresh_db (JStr ''u1'') ''n1'')) = docs fresh_db"
    by blast
  from present absent show ?thesis
    unfolding f by simp
qed

text \<open>
  The store \<open>idless_db\<close> is what saving \<open>[plain_node, n1]\<close> leaves. Its document has
  both arrays and the store answers, yet \<open>remove_node\<close> for \<^verbatim>\<open>n1\<close> returns \<open>False\<close> and
  only reads.
\<close>

theorem remove_node_filters_counterexample:
  "save_flow_data fresh_db (JStr ''u1'') [plain_node, n1] [] (JStr ''light'') = (True, idless_db) \<and>
   docs idless_db ''u1'' = Some idless_doc \<and>
   fmlookup idless_doc ''nodes'' = Some (JList [plain_node, n1]) \<and>
   fmlookup idless_doc ''edges'' = Some (JList []) \<and>
   \<not> store_down idless_db \<and>
   \<not> store_down (called (GetCall ''u1'') idless_db) \<and>
   remove_node idless_db (JStr ''u1'') ''n1'' = (False, called (GetCall ''u1'') idless_db)"
proof -
  have saved: "save_flow_data fresh_db (JStr ''u1'') [plain_node, n1] [] (JStr ''light'') = (True, idless_db)"
    by (simp add: save_flow_data_def save_flow_data_try_def doc_set_def issue_eq store_down_def
          called_def fresh_db_def idless_db_def idless_doc_def fmmap_fmupd is_document_id_iff)
  have "getitem plain_node ''id'' = Inl KeyError"
    by (simp add: plain_node_def)
  then have "comprehension (node_kept ''n1'') [plain_node, n1] = Inl KeyError"
    by (simp add: node_kept_def)
  then have removed: "remove_node idless_db (JStr ''u1'') ''n1'' = (False, called (GetCall ''u1'') idless_db)"
    by (simp add: remove_node_def remove_node_try_def get_flow_data_eq store_down_def dict_get_def
          idless_db_def idless_doc_def is_document_id_iff)
  from saved removed show ?thesis
    by (simp add: idless_db_def idless_doc_def store_down_def)
qed

text \<open>
  C3. An \<open>add_node\<close> that returns \<open>True\<close> found a document and a node with a \<open>data\<close>
  mapping. In the document it leaves, every field other than \<open>nodes\<close> and \<open>updated_at\<close>
  is as before, so \<open>node_count\<close>, \<open>edge_count\<close>, \<open>edges\<close> and \<open>theme\<close> are the stored
  ones and \<open>node_count\<close> is not the new length; \<open>updated_at\<close> is the write time; \<open>nodes\<close>
  is the old array with the node, \<open>created_at\<close> set inside its \<open>data\<close>, appended (by array
  union: not a second time when an equal entry is already there; alone when the field was
  no array); the other documents are as before.
\<close>

theorem add_node_frame:
  assumes "add_node now db (JStr user_id) node = (True, node', db')"
  shows "\<exists>d d' m data.
           docs db user_id = Some d \<and> docs db' user_id = Some d' \<and>
           node = JObj m \<and> fmlookup m ''data'' = Some (JObj data) \<and>
           node' = JObj (fmupd ''data'' (JObj (fmupd ''created_at'' (JStr now) data)) m) \<and>
           (\<forall>k. k \<noteq> ''nodes'' \<and> k \<noteq> ''updated_at'' \<longrightarrow> fmlookup d' k = fmlookup d k) \<and>
           fmlookup d' ''node_count'' = fmlookup d ''node_count'' \<and>
           fmlookup d' ''edge_count'' = fmlookup d ''edge_count'' \<and>
           fmlookup d' ''edges'' = fmlookup d ''edges'' \<and>
           fmlookup d' ''theme'' = fmlookup d ''theme'' \<and>
           fmlookup d' ''updated_at'' = Some (JTime (server_time db)) \<and>
           fmlookup d' ''nodes'' =
             Some (JList (case fmlookup d ''nodes'' of
                            Some (JList ns) \<Rightarrow> if node' \<in> set ns then ns else ns @ [node']
                          | _ \<Rightarrow> [node'])) \<and>
           (\<forall>u. u \<noteq> user_id \<longrightarrow> docs db' u = docs db u)"
proof -
  from add_node_True [OF assms] obtain data d where
    data: "data_of node = Some data" and id: "is_document_id user_id" and
    up: "\<not> store_down db" and d: "docs db user_id = Some d"
    by auto
  from id have ref: "document db (JStr user_id) = (Inr user_id, db)"
    by simp
  from data obtain m where m: "node = JObj m" "fmlookup m ''data'' = Some (JObj data)"
    by (cases node) (auto split: option.splits json.splits)
  then have s: "stamped now (JObj m) = JObj (fmupd ''data'' (JObj (fmupd ''created_at'' (JStr now) data)) m)"
    by (simp add: stamped_def)
  show ?thesis
    using assms add_node_with_data [OF data ref, of now] up d m s
    by (auto simp: resolve_union_one)
qed

theorem add_node_frame_witness:
  "fst (add_node ''2026-01-05T10:00:00'' stored_db (JStr ''u1'') n3) \<and>
   (\<exists>d'. docs (snd (snd (add_node ''2026-01-05T10:00:00'' stored_db (JStr ''u1'') n3))) ''u1'' = Some d' \<and>
          fmlookup d' ''node_count'' = Some (JInt 2) \<and>
          fmlookup d' ''edge_count'' = Some (JInt 1) \<and>
          fmlookup d' ''edges'' = Some (JList [e12]) \<and>
          fmlookup d' ''theme'' = Some (JStr ''dark'') \<and>
          fmlookup d' ''updated_at'' = Some (JTime 8) \<and>
          fmlookup d' ''nodes'' = Some (JList [n1, n2, stamped ''2026-01-05T10:00:00'' n3]))"
proof -
  let ?a = "add_node ''2026-01-05T10:00:00'' stored_db (JStr ''u1'') n3"
  have dn: "data_of n3 = Some fmempty"
    by (simp add: n3_def)
  have "document stored_db (JStr ''u1'') = (Inr ''u1'', stored_db)"
    by (simp add: is_document_id_iff)
  from add_node_with_data [OF dn this] have ok: "fst ?a"
    by (simp add: store_down_def stored_db_def)
  then have a: "?a = (True, fst (snd ?a), snd (snd ?a))"
    by (cases ?a) simp
  from add_node_frame [OF a] obtain d d' m data where
    d: "docs stored_db ''u1'' = Some d" and d': "docs (snd (snd ?a)) ''u1'' = Some d'" and
    n: "n3 = JObj m" "fmlookup m ''data'' = Some (JObj data)"
       "fst (snd ?a) = JObj (fmupd ''data'' (JObj (fmupd ''created_at'' (JStr ''2026-01-05T10:00:00'') data)) m)" and
    frame: "fmlookup d' ''node_count'' = fmlookup d ''node_count''"
           "fmlookup d' ''edge_count'' = fmlookup d ''edge_count''"
           "fmlookup d' ''edges'' = fmlookup d ''edges''"
           "fmlookup d' ''theme'' = fmlookup d ''theme''"
           "fmlookup d' ''updated_at'' = Some (JTime (server_time stored_db))" and
    nodes: "fmlookup d' ''nodes'' =
             Some (JList (case fmlookup d ''nodes'' of
                            Some (JList ns) \<Rightarrow> if fst (snd ?a) \<in> set ns then ns else ns @ [fst (snd ?a)]
                          | _ \<Rightarrow> [fst (snd ?a)]))"
    by (elim exE conjE) (rule that, assumption+)
  from d have du: "d = u1_doc"
    by (simp add: stored_db_def)
  have st: "fst (snd ?a) = stamped ''2026-01-05T10:00:00'' n3"
    using n(2,3) unfolding stamped_def n(1) by simp
  have "getitem (stamped ''2026-01-05T10:00:00'' n3) ''id'' = Inr (JStr ''n3'')"
    by (simp add: stamped_def n3_def)
  moreover have "getitem n1 ''id'' = Inr (JStr ''n1'')" "getitem n2 ''id'' = Inr (JStr ''n2'')"
    by (simp_all add: n1_def n2_def)
  ultimately have new: "stamped ''2026-01-05T10:00:00'' n3 \<noteq> n1" "stamped ''2026-01-05T10:00:00'' n3 \<noteq> n2"
    by auto
  have "fmlookup d' ''nodes'' = Some (JList [n1, n2, stamped ''2026-01-05T10:00:00'' n3])"
    using nodes new by (simp add: du st u1_doc_def)
  with ok d' frame show ?thesis
    by (simp add: du u1_doc_def stored_db_def)
qed


section \<open>What the handlers check\<close>

text \<open>
  C4. When the body of a save request has a \<open>nodes\<close> field, or an \<open>edges\<close> field, that is
  not a list, \<open>save_flow\<close> answers 400 and leaves the store exactly as it was: no call
  is issued, and the documents are the old ones. (The manager is initialised and the
  body is a JSON object.)
\<close>

theorem save_flow_rejects_non_sequence:
  assumes "(\<exists>v. fmlookup body ''nodes'' = Some v \<and> \<not> is_list v) \<or>
           (\<exists>v. fmlookup body ''edges'' = Some v \<and> \<not> is_list v)"
  shows "save_flow (Some db) (Inr (JObj body)) =
           ((jsonify [(''error'', JStr ''Invalid data format'')], 400), Some db)"
proof -
  have "\<not> is_list (dict_get body ''nodes'' (JList [])) \<or>
        \<not> is_list (dict_get body ''edges'' (JList []))"
    using assms by (auto simp: dict_get_def)
  then show ?thesis
    by (cases "dict_get body ''nodes'' (JList [])"; cases "dict_get body ''edges'' (JList [])")
       (simp_all add: save_flow_def save_flow_try_def)
qed

theorem save_flow_rejects_non_sequence_witness:
  "save_flow (Some stored_db) (Inr (JObj (fmap_of_list [(''user_id'', JStr ''u1''), (''nodes'', n1)]))) =
     ((jsonify [(''error'', JStr ''Invalid data format'')], 400), Some stored_db) \<and>
   save_flow (Some stored_db) (Inr (JObj (fmap_of_list [(''user_id'', JStr ''u1''), (''edges'', JStr ''e'')]))) =
     ((jsonify [(''error'', JStr ''Invalid data format'')], 400), Some stored_db)"
  using save_flow_rejects_non_sequence
          [of "fmap_of_list [(''user_id'', JStr ''u1''), (''nodes'', n1)]" stored_db]
        save_flow_rejects_non_sequence
          [of "fmap_of_list [(''user_id'', JStr ''u1''), (''edges'', JStr ''e'')]" stored_db]
  by (simp add: n1_def)

text \<open>
  C8. \<open>save_flow\<close> treats a body as it treats the same body with every absent field of
  \<open>user_id\<close>, \<open>nodes\<close>, \<open>edges\<close> and \<open>theme\<close> filled in with \<^verbatim>\<open>default_user\<close>, the
  empty list, the empty list and \<^verbatim>\<open>light\<close>; when the filled-in \<open>nodes\<close> and \<open>edges\<close>
  are lists, it hands the filled-in values to \<open>save_flow_data\<close>, and answers 200 or 500
  by its flag. So the empty object is saved as \<open>save_flow_data\<close> saves no nodes and no
  edges under \<^verbatim>\<open>default_user\<close> with the theme \<^verbatim>\<open>light\<close>. (The manager is initialised.)
\<close>

theorem save_flow_defaults:
  "save_flow (Some db) (Inr (JObj body)) =
     save_flow (Some db) (Inr (JObj (request_defaults ++\<^sub>f body))) \<and>
   (fmlookup (request_defaults ++\<^sub>f body) ''user_id'' = Some user_id \<and>
    fmlookup (request_defaults ++\<^sub>f body) ''nodes'' = Some (JList nodes) \<and>
    fmlookup (request_defaults ++\<^sub>f body) ''edges'' = Some (JList edges) \<and>
    fmlookup (request_defaults ++\<^sub>f body) ''theme'' = Some theme \<longrightarrow>
      snd (save_flow (Some db) (Inr (JObj body))) =
        Some (snd (save_flow_data db user_id nodes edges theme)) \<and>
      snd (fst (save_flow (Some db) (Inr (JObj body)))) =
        (if fst (save_flow_data db user_id nodes edges theme) then 200 else 500)) \<and>
   snd (save_flow (Some db) (Inr (JObj fmempty))) =
     Some (snd (save_flow_data db (JStr ''default_user'') [] [] (JStr ''light'')))"
proof -
  have filled: "save_flow (Some db) (Inr (JObj b)) =
                save_flow (Some db) (Inr (JObj (request_defaults ++\<^sub>f b)))" for b
    by (rule save_flow_absent_is_default)
  have "fmlookup (request_defaults ++\<^sub>f fmempty) ''user_id'' = Some (JStr ''default_user'')"
       "fmlookup (request_defaults ++\<^sub>f fmempty) ''nodes'' = Some (JList [])"
       "fmlookup (request_defaults ++\<^sub>f fmempty) ''edges'' = Some (JList [])"
       "fmlookup (request_defaults ++\<^sub>f fmempty) ''theme'' = Some (JStr ''light'')"
    by (simp_all add: request_defaults_def)
  from save_flow_all_fields [OF this, of db]
  have empty: "snd (save_flow (Some db) (Inr (JObj fmempty))) =
     Some (snd (save_flow_data db (JStr ''default_user'') [] [] (JStr ''light'')))"
    by (simp only: filled [of fmempty])
  show ?thesis
    using save_flow_all_fields [of "request_defaults ++\<^sub>f body" user_id nodes edges theme db] empty
    by (simp only: filled [of body]) blast
qed

theorem save_flow_defaults_witness:
  "fst (save_flow (Some fresh_db) (Inr (JObj fmempty))) =
     (jsonify [(''message'', JStr ''Flow data saved successfully''),
               (''node_count'', JInt 0),
               (''edge_count'', JInt 0)], 200) \<and>
   map_option docs (snd (save_flow (Some fresh_db) (Inr (JObj fmempty)))) =
     Some [''default_user'' \<mapsto>
        fmap_of_list [(''nodes'', JList []),
                      (''edges'', JList []),
                      (''theme'', JStr ''light''),
                      (''updated_at'', JTime 7),
                      (''node_count'', JInt 0),
                      (''edge_count'', JInt 0)]] \<and>
   map_option calls (snd (save_flow (Some fresh_db) (Inr (JObj fmempty)))) =
     Some [SetCall ''default_user'']"
proof -
  let ?s = "save_flow_data fresh_db (JStr ''default_user'') [] [] (JStr ''light'')"
  have ok: "fst ?s"
    by (simp add: save_flow_data_def save_flow_data_try_def doc_set_def issue_eq store_down_def
          fresh_db_def is_document_id_iff)
  then have s: "?s = (True, snd ?s)"
    by (cases ?s) simp
  from save_flow_data_True [OF s]
  have d: "docs (snd ?s) = [''default_user'' \<mapsto>
        fmap_of_list [(''nodes'', JList []),
                      (''edges'', JList []),
                      (''theme'', JStr ''light''),
                      (''updated_at'', JTime 7),
                      (''node_count'', JInt 0),
                      (''edge_count'', JInt 0)]]"
    by (simp add: fresh_db_def)
  have c: "calls (snd ?s) = [SetCall ''default_user'']"
    by (simp add: save_flow_data_def save_flow_data_try_def doc_set_def issue_eq store_down_def
          fresh_db_def is_document_id_iff)
  have r: "fst (save_flow (Some fresh_db) (Inr (JObj fmempty))) =
     (jsonify [(''message'', JStr ''Flow data saved successfully''),
               (''node_count'', JInt 0),
               (''edge_count'', JInt 0)], 200)"
    using ok by (cases ?s) (simp add: save_flow_def save_flow_try_def dict_get_def)
  from save_flow_defaults [of fresh_db fmempty]
  have "snd (save_flow (Some fresh_db) (Inr (JObj fmempty))) = Some (snd ?s)"
    by blast
  with d c r show ?thesis
    by simp
qed

text \<open>
  C9. When the body of an add-node request has no \<open>node\<close> field, or one that is falsy
  (the empty mapping is), \<open>add_node_route\<close> answers 400 with \<^verbatim>\<open>Node data required\<close> and
  leaves the store exactly as it was: the data access layer is not called and no call
  reaches the store. (The manager is initialised and the body is a JSON object.)
\<close>

theorem add_node_route_requires_node:
  assumes "case fmlookup body ''node'' of None \<Rightarrow> True | Some v \<Rightarrow> \<not> truthy v"
  shows "add_node_route now (Some db) (Inr (JObj body)) =
           ((jsonify [(''error'', JStr ''Node data required'')], 400), Some db)"
  using assms
  by (auto simp: add_node_route_def add_node_route_try_def dict_get_def split: option.splits)

theorem add_node_route_requires_node_witness:
  "add_node_route ''2026-01-05T10:00:00'' (Some stored_db)
     (Inr (JObj (fmap_of_list [(''user_id'', JStr ''u1''), (''node'', JObj fmempty)]))) =
     ((jsonify [(''error'', JStr ''Node data required'')], 400), Some stored_db) \<and>
   add_node_route ''2026-01-05T10:00:00'' (Some stored_db)
     (Inr (JObj (fmap_of_list [(''user_id'', JStr ''u1'')]))) =
     ((jsonify [(''error'', JStr ''Node data required'')], 400), Some stored_db)"
  using add_node_route_requires_node
          [of "fmap_of_list [(''user_id'', JStr ''u1''), (''node'', JObj fmempty)]"
              "''2026-01-05T10:00:00''" stored_db]
        add_node_route_requires_node
          [of "fmap_of_list [(''user_id'', JStr ''u1'')]" "''2026-01-05T10:00:00''" stored_db]
  by simp

text \<open>
  C10. Not every node with a \<open>data\<close> mapping is stamped: the reference is built before
  the stamp, and when the client refuses \<open>user_id\<close>, as it does \<^verbatim>\<open>a/b\<close>, \<open>add_node\<close>
  returns \<open>False\<close> with the node as it was (the counterexample below). What holds, for
  every \<open>user_id\<close>: for a node without a \<open>data\<close> key that holds a mapping, \<open>add_node\<close>
  returns \<open>False\<close> and leaves the node, the documents and the log of calls as they
  were, so no call reaches the store. For a node with a \<open>data\<close> mapping, when the client
  builds the reference, the caller's node has \<open>created_at\<close> set inside \<open>data\<close> after the
  call whatever the store does; in particular when the update raises, \<open>add_node\<close>
  returns \<open>False\<close>, the documents are the old ones, and the node is changed all the
  same. When the client refuses \<open>user_id\<close>, \<open>add_node\<close> returns \<open>False\<close>, the node is
  untouched and no call is issued.
\<close>

theorem add_node_needs_data_mapping:
  "(data_of node = None \<longrightarrow>
      \<not> fst (add_node now db user_id node) \<and>
      fst (snd (add_node now db user_id node)) = node \<and>
      docs (snd (snd (add_node now db user_id node))) = docs db \<and>
      calls (snd (snd (add_node now db user_id node))) = calls db) \<and>
   (data_of node = Some data \<and> fst (document db user_id) = Inr ref \<longrightarrow>
      fst (snd (add_node now db user_id node)) = stamped now node \<and>
      data_of (stamped now node) = Some (fmupd ''created_at'' (JStr now) data) \<and>
      (store_down db \<longrightarrow>
         \<not> fst (add_node now db user_id node) \<and>
         docs (snd (snd (add_node now db user_id node))) = docs db \<and>
         calls (snd (snd (add_node now db user_id node))) = calls db @ [UpdateCall ref])) \<and>
   (fst (document db user_id) = Inl e \<longrightarrow>
      \<not> fst (add_node now db user_id node) \<and>
      fst (snd (add_node now db user_id node)) = node \<and>
      docs (snd (snd (add_node now db user_id node))) = docs db \<and>
      calls (snd (snd (add_node now db user_id node))) = calls db)"
proof (intro conjI impI)
  assume "data_of node = None"
  then have "add_node now db user_id node = (False, node, snd (document db user_id))"
    by (rule add_node_no_data)
  then show "\<not> fst (add_node now db user_id node)"
    "fst (snd (add_node now db user_id node)) = node"
    "docs (snd (snd (add_node now db user_id node))) = docs db"
    "calls (snd (snd (add_node now db user_id node))) = calls db"
    by simp_all
next
  assume "data_of node = Some data \<and> fst (document db user_id) = Inr ref"
  then have d: "data_of node = Some data" and r: "document db user_id = (Inr ref, snd (document db user_id))"
    by (simp_all add: prod_eq_iff)
  show "fst (snd (add_node now db user_id node)) = stamped now node"
    by (simp add: add_node_with_data [OF d r] split: option.splits)
  from d obtain m where "node = JObj m" "fmlookup m ''data'' = Some (JObj data)"
    by (cases node) (auto split: option.splits json.splits)
  then show "data_of (stamped now node) = Some (fmupd ''created_at'' (JStr now) data)"
    by (simp add: stamped_def)
  assume "store_down db"
  then show "\<not> fst (add_node now db user_id node)"
    "docs (snd (snd (add_node now db user_id node))) = docs db"
    "calls (snd (snd (add_node now db user_id node))) = calls db @ [UpdateCall ref]"
    by (simp_all add: add_node_with_data [OF d r])
next
  assume "fst (document db user_id) = Inl e"
  then have "add_node now db user_id node = (False, node, snd (document db user_id))"
    by (rule add_node_refused)
  then show "\<not> fst (add_node now db user_id node)"
    "fst (snd (add_node now db user_id node)) = node"
    "docs (snd (snd (add_node now db user_id node))) = docs db"
    "calls (snd (snd (add_node now db user_id node))) = calls db"
    by simp_all
qed

theorem add_node_needs_data_mapping_witness:
  "add_node ''2026-01-05T10:00:00'' stored_db (JStr ''u1'') (JObj (fmap_of_list [(''id'', JStr ''n3'')])) =
     (False, JObj (fmap_of_list [(''id'', JStr ''n3'')]), stored_db) \<and>
   \<not> fst (add_node ''2026-01-05T10:00:00'' failing_db (JStr ''u1'') n3) \<and>
   data_of (fst (snd (add_node ''2026-01-05T10:00:00'' failing_db (JStr ''u1'') n3))) =
     Some (fmap_of_list [(''created_at'', JStr ''2026-01-05T10:00:00'')]) \<and>
   docs (snd (snd (add_node ''2026-01-05T10:00:00'' failing_db (JStr ''u1'') n3))) = docs failing_db \<and>
   fst (snd (add_node ''2026-01-05T10:00:00'' stored_db (JInt 5) n3)) = n3"
proof -
  let ?bare = "JObj (fmap_of_list [(''id'', JStr ''n3'')])"
  let ?now = "''2026-01-05T10:00:00''"
  have a: "data_of ?bare = None"
    by simp
  have b: "data_of n3 = Some fmempty"
    by (simp add: n3_def)
  have c: "store_down failing_db"
    by (simp add: store_down_def failing_db_def)
  have r: "fst (document failing_db (JStr ''u1'')) = Inr ''u1''"
    "fst (document stored_db (JInt 5)) = Inl TypeError"
    by (simp_all add: is_document_id_iff)
  from add_node_needs_data_mapping
         [where node = ?bare and now = ?now and db = stored_db and user_id = "JStr ''u1''"] a
  have "\<not> fst (add_node ?now stored_db (JStr ''u1'') ?bare)"
    "fst (snd (add_node ?now stored_db (JStr ''u1'') ?bare)) = ?bare"
    by blast+
  moreover have "snd (snd (add_node ?now stored_db (JStr ''u1'') ?bare)) = stored_db"
    using add_node_no_data [OF a, of ?now stored_db "JStr ''u1''"]
    by (simp add: is_document_id_iff)
  ultimately have first: "add_node ?now stored_db (JStr ''u1'') ?bare = (False, ?bare, stored_db)"
    by (simp add: prod_eq_iff)
  from add_node_needs_data_mapping
         [where node = n3 and now = ?now and db = failing_db and user_id = "JStr ''u1''"
            and data = fmempty and ref = "''u1''"] b c r(1)
  have second: "fst (snd (add_node ?now failing_db (JStr ''u1'') n3)) = stamped ?now n3"
      "data_of (stamped ?now n3) = Some (fmupd ''created_at'' (JStr ?now) fmempty)"
      "\<not> fst (add_node ?now failing_db (JStr ''u1'') n3)"
      "docs (snd (snd (add_node ?now failing_db (JStr ''u1'') n3))) = docs failing_db"
    by blast+
  from add_node_needs_data_mapping
         [where node = n3 and now = ?now and db = stored_db and user_id = "JInt 5"
            and e = TypeError] r(2)
  have third: "fst (snd (add_node ?now stored_db (JInt 5) n3)) = n3"
    by blast
  from first second third show ?thesis
    by simp
qed

text \<open>
  The node \<open>n3\<close> has a \<open>data\<close> mapping, and the document of \<^verbatim>\<open>u1\<close> exists in a store
  that answers; with the id \<^verbatim>\<open>a/b\<close>, \<open>add_node\<close> returns \<open>False\<close> and hands the node back
  as it came, its \<open>data\<close> still empty.
\<close>

theorem add_node_needs_data_mapping_counterexample:
  "data_of n3 = Some fmempty \<and>
   \<not> store_down stored_db \<and>
   add_node ''2026-01-05T10:00:00'' stored_db (JStr ''a/b'') n3 = (False, n3, stored_db) \<and>
   n3 \<noteq> stamped ''2026-01-05T10:00:00'' n3"
proof -
  have "fst (document stored_db (JStr ''a/b'')) = Inl ValueError"
    by (simp add: is_document_id_iff)
  from add_node_refused [OF this]
  have "add_node ''2026-01-05T10:00:00'' stored_db (JStr ''a/b'') n3 = (False, n3, stored_db)"
    by (simp add: is_document_id_iff)
  moreover have "data_of n3 = Some fmempty"
    by (simp add: n3_def)
  moreover have "data_of (stamped ''2026-01-05T10:00:00'' n3) \<noteq> Some fmempty"
    by (simp add: stamped_def n3_def)
  ultimately show ?thesis
    by (auto simp: store_down_def stored_db_def)
qed


end
